theory Spec2Isabelle
  imports Main "HOL-Library.Word" "HOL-Library.Sublist" "HOL-Library.Log_Nat"
begin

unbundle bit_operations_syntax

section \<open>JavaScript strings\<close>

text \<open>
  The handler of \<^verbatim>\<open>functions/detect.js\<close> works on JavaScript strings. A string is
  modelled as a \<^typ>\<open>string\<close>, one \<^typ>\<open>char\<close> per code unit, which covers the code
  units 0 to 255 (ASCII and Latin-1): DNS names, dotted quads, CIDR lines and header values
  all live there. Within that range \<^verbatim>\<open>trim\<close> removes the seven characters below and
  \<^verbatim>\<open>toLowerCase\<close> moves \<^verbatim>\<open>A-Z\<close> and the accented capitals by 32.
\<close>

definition is_ws :: "char \<Rightarrow> bool" where
  "is_ws c = (of_char c \<in> {9, 10, 11, 12, 13, 32, 160 :: nat})"

definition trim :: "string \<Rightarrow> string" where
  "trim s = rev (dropWhile is_ws (rev (dropWhile is_ws s)))"

definition lower_char :: "char \<Rightarrow> char" where
  "lower_char c =
     (let n = of_char c :: nat
      in if (65 \<le> n \<and> n \<le> 90) \<or> (192 \<le> n \<and> n \<le> 222 \<and> n \<noteq> 215)
         then char_of (n + 32) else c)"

definition toLowerCase :: "string \<Rightarrow> string" where
  "toLowerCase s = map lower_char s"

text \<open>\<^verbatim>\<open>s.endsWith(t)\<close>: the last \<open>length t\<close> code units of \<open>s\<close> are \<open>t\<close>.\<close>

definition endsWith :: "string \<Rightarrow> string \<Rightarrow> bool" where
  "endsWith s t = (length t \<le> length s \<and> drop (length s - length t) s = t)"

text \<open>\<^verbatim>\<open>s.includes(t)\<close>: \<open>t\<close> occurs in \<open>s\<close> at some position, searched from the left.\<close>

fun includes_str :: "string \<Rightarrow> string \<Rightarrow> bool" where
  "includes_str [] t = (t = [])"
| "includes_str (c # cs) t = (take (length t) (c # cs) = t \<or> includes_str cs t)"

text \<open>\<^verbatim>\<open>s.replace(/\.$/, '')\<close>: one dot at the very end of the string is removed.\<close>

definition strip_trailing_dot :: "string \<Rightarrow> string" where
  "strip_trailing_dot s = (if s \<noteq> [] \<and> last s = CHR ''.'' then butlast s else s)"

fun cons_first :: "char \<Rightarrow> string list \<Rightarrow> string list" where
  "cons_first c [] = [[c]]"
| "cons_first c (l # ls) = (c # l) # ls"

text \<open>
  \<^verbatim>\<open>s.split(sep)\<close> for a separator of one code unit. The empty string splits into one
  empty piece, so the result is never the empty list.
\<close>

fun split_char :: "char \<Rightarrow> string \<Rightarrow> string list" where
  "split_char sep [] = [[]]"
| "split_char sep (c # cs) =
     (if c = sep then [] # split_char sep cs else cons_first c (split_char sep cs))"

text \<open>\<^verbatim>\<open>s.split(/\r?\n/)\<close>: a line ends at a line feed, or at a carriage return followed
  by a line feed; a lone carriage return stays in its line.\<close>

fun split_lines :: "string \<Rightarrow> string list" where
  "split_lines [] = [[]]"
| "split_lines [c] = (if c = CHR 0x0A then [[], []] else [[c]])"
| "split_lines (c # d # cs) =
     (if c = CHR 0x0A then [] # split_lines (d # cs)
      else if c = CHR 0x0D \<and> d = CHR 0x0A then [] # split_lines cs
      else cons_first c (split_lines (d # cs)))"

section \<open>JavaScript numbers\<close>

text \<open>
  Every number of the handler is an integer-valued double, an infinity or NaN. \<open>Fin n\<close> is
  the double of value \<open>n\<close>; the two zeros are not told apart, since each use goes through
  \<open>ToInt32\<close> or \<open>ToUint32\<close>. \<open>number_of_int\<close> rounds an integer to the nearest double (53
  significant bits, ties to even), which is the identity below \<open>2 ^ 53\<close>.
\<close>

datatype number = NaN | Inf bool | Fin int

definition number_of_int :: "int \<Rightarrow> number" where
  "number_of_int n =
     (let m = \<bar>n\<bar>
      in if m < 2 ^ 53 then Fin n
         else let e = nat (bitlen m - 53);
                  q = m div 2 ^ e;
                  r = m mod 2 ^ e;
                  q' = (if 2 * r > 2 ^ e \<or> (2 * r = 2 ^ e \<and> odd q) then q + 1 else q);
                  v = q' * 2 ^ e
              in if v \<ge> 2 ^ 1024 then Inf (0 < n) else Fin (sgn n * v))"

fun add_number :: "number \<Rightarrow> number \<Rightarrow> number" where
  "add_number (Fin a) (Fin b) = number_of_int (a + b)"
| "add_number NaN y = NaN"
| "add_number x NaN = NaN"
| "add_number (Inf s) (Inf t) = (if s = t then Inf s else NaN)"
| "add_number (Inf s) (Fin b) = Inf s"
| "add_number (Fin a) (Inf t) = Inf t"

fun neg_number :: "number \<Rightarrow> number" where
  "neg_number NaN = NaN"
| "neg_number (Inf s) = Inf (\<not> s)"
| "neg_number (Fin a) = Fin (- a)"

definition sub_number :: "number \<Rightarrow> number \<Rightarrow> number" where
  "sub_number x y = add_number x (neg_number y)"

text \<open>\<open>ToInt32\<close> and \<open>ToUint32\<close>: NaN and the infinities give 0, a finite value wraps
  modulo \<open>2 ^ 32\<close>. Both give the same 32 bits, read as signed or unsigned.\<close>

fun ToInt32 :: "number \<Rightarrow> 32 word" where
  "ToInt32 (Fin n) = word_of_int n"
| "ToInt32 _ = 0"

definition is_digit :: "char \<Rightarrow> bool" where
  "is_digit c = (48 \<le> (of_char c :: nat) \<and> (of_char c :: nat) \<le> 57)"

definition digits_value :: "string \<Rightarrow> int" where
  "digits_value ds = foldl (\<lambda>acc c. 10 * acc + (int (of_char c) - 48)) 0 ds"

text \<open>
  \<^verbatim>\<open>parseInt(s, 10)\<close>: leading white space is skipped, one sign is read, then the longest
  run of decimal digits; no digit gives NaN. The argument \<open>None\<close> is \<^verbatim>\<open>undefined\<close>,
  whose text has no digit.
\<close>

definition parseInt :: "string option \<Rightarrow> number" where
  "parseInt arg =
     (case arg of
        None \<Rightarrow> NaN
      | Some s \<Rightarrow>
          (let s1 = dropWhile is_ws s;
               neg = (s1 \<noteq> [] \<and> hd s1 = CHR ''-'');
               s2 = (if s1 \<noteq> [] \<and> (hd s1 = CHR ''-'' \<or> hd s1 = CHR ''+'') then tl s1 else s1);
               ds = takeWhile is_digit s2
           in if ds = [] then NaN
              else number_of_int ((if neg then - 1 else 1) * digits_value ds)))"

section \<open>The containment test\<close>

text \<open>
  \<^verbatim>\<open>ip.split('.').reduce((acc,oct)=> (acc<<8) + parseInt(oct,10), 0) >>> 0\<close>:
  the shift works on the 32 bits of the accumulator and gives a signed value, the sum is a
  sum of numbers, the last step reads the 32 bits as unsigned.
\<close>

definition ipToInt :: "string \<Rightarrow> number" where
  "ipToInt ip =
     Fin (uint (ToInt32
       (foldl (\<lambda>acc oct. add_number (Fin (sint (push_bit 8 (ToInt32 acc)))) (parseInt (Some oct)))
          (Fin 0) (split_char CHR ''.'' ip))))"

text \<open>
  \<^verbatim>\<open>mask==="" ? 0 : (~0 << (32 - parseInt(mask,10))) >>> 0\<close>: the shift count is the low
  five bits of \<open>32 - prefix\<close>.
\<close>

definition maskInt :: "string option \<Rightarrow> number" where
  "maskInt msk =
     (if msk = Some [] then Fin 0
      else Fin (uint (push_bit
             (unat (ToInt32 (sub_number (Fin 32) (parseInt msk)) AND 31))
             (NOT 0 :: 32 word))))"

text \<open>
  \<^verbatim>\<open>const [net, mask] = cidr.split('/')\<close> takes the first two pieces; a missing second
  piece is \<^verbatim>\<open>undefined\<close>. The split has at least one piece, so the first branch is
  never taken.
\<close>

definition cidrContains :: "string \<Rightarrow> string \<Rightarrow> bool" where
  "cidrContains cidr ip =
     (if CHR '':'' \<in> set cidr then False
      else (case split_char CHR ''/'' cidr of
              [] \<Rightarrow> False
            | net # rest \<Rightarrow>
                (let msk = (case rest of [] \<Rightarrow> None | m # _ \<Rightarrow> Some m);
                     netInt = ipToInt net;
                     ipInt = ipToInt ip;
                     mInt = maskInt msk
                 in (ToInt32 netInt AND ToInt32 mInt) = (ToInt32 ipInt AND ToInt32 mInt))))"

text \<open>\<^verbatim>\<open>ipv4.filter(ip => cfRanges.some(r => cidrContains(r, ip)))\<close>\<close>

definition ipsBehindCF :: "string list \<Rightarrow> string list \<Rightarrow> string list" where
  "ipsBehindCF ipv4 cfRanges = filter (\<lambda>ip. list_ex (\<lambda>r. cidrContains r ip) cfRanges) ipv4"

text \<open>
  A valid dotted quad, as the claims speak of it: four pieces between dots, each a non-empty
  run of decimal digits of value at most 255.
\<close>

definition valid_octet :: "string \<Rightarrow> bool" where
  "valid_octet s = (s \<noteq> [] \<and> list_all is_digit s \<and> digits_value s \<le> 255)"

definition valid_dotted_quad :: "string \<Rightarrow> bool" where
  "valid_dotted_quad ip =
     (length (split_char CHR ''.'' ip) = 4 \<and> list_all valid_octet (split_char CHR ''.'' ip))"

section \<open>The outside world and the effects of a request\<close>

text \<open>
  The handler talks to three services through \<^verbatim>\<open>fetch\<close>: the DNS-over-HTTPS resolver,
  the probed host, and the two range lists. Within one request no call is made twice (the
  calls differ in method or address), so the world is a function from the call to its reply.
  A resolver call is identified by the name and record type that its address encodes.
\<close>

datatype outbound = DohQuery string string | Head string | Get string

record answer =
  type :: int
  data :: string

text \<open>What \<^verbatim>\<open>r.json()\<close> gives for a resolver reply: \<^verbatim>\<open>null\<close>, or an object whose
  \<^verbatim>\<open>Answer\<close> field is a list of records or is missing.\<close>

datatype dns_json = JsonNull | JsonObject "answer list option"

text \<open>A resolver call is rejected (network error), or answers with \<^verbatim>\<open>r.ok\<close> and a
  body; the body is \<open>None\<close> when it is not JSON, so that \<^verbatim>\<open>r.json()\<close> is rejected.\<close>

datatype doh_reply = DohRejected | DohResponse bool "dns_json option"

text \<open>A HEAD call throws with a message, or answers with a status and headers (names in
  lower case, as \<^verbatim>\<open>r.headers.get\<close> reads them).\<close>

datatype head_reply = HeadThrows string | HeadResponse nat "string \<rightharpoonup> string"

datatype text_reply = TextRejected | TextBody string

record world =
  doh_fetch :: "string \<Rightarrow> string \<Rightarrow> doh_reply"
  head_fetch :: "string \<Rightarrow> head_reply"
  text_fetch :: "string \<Rightarrow> text_reply"

text \<open>
  An exception that leaves the handler: a rejected \<^verbatim>\<open>fetch\<close>, a rejected
  \<^verbatim>\<open>json()\<close> or \<^verbatim>\<open>text()\<close>, or a \<^verbatim>\<open>TypeError\<close>. A computation gives the
  outbound calls it made, in order, and its result or the exception.
\<close>

datatype error = FetchRejected outbound | JsonRejected outbound | TypeError

type_synonym 'a io = "outbound list \<times> (error + 'a)"

definition io_return :: "'a \<Rightarrow> 'a io" where
  "io_return x = ([], Inr x)"

definition io_bind :: "'a io \<Rightarrow> ('a \<Rightarrow> 'b io) \<Rightarrow> 'b io" where
  "io_bind m f =
     (case m of
        (t, Inl e) \<Rightarrow> (t, Inl e)
      | (t, Inr x) \<Rightarrow> (case f x of (t', r) \<Rightarrow> (t @ t', r)))"

section \<open>The request handler\<close>

text \<open>
  The request gives \<^verbatim>\<open>url.searchParams.get('domain')\<close> (\<open>None\<close> for \<^verbatim>\<open>null\<close>) and
  the outcome of \<^verbatim>\<open>context.request.json().then(r=>r.domain)\<close>: \<open>None\<close> when that
  promise is rejected (the body is not JSON, or it is \<^verbatim>\<open>null\<close>), else the value of the
  field. For a number only being zero matters.
\<close>

datatype jsvalue = JUndefined | JNull | JBool bool | JNumber int | JString string | JObject

record request =
  query_domain :: "string option"
  json_domain :: "jsvalue option"

fun truthy :: "jsvalue \<Rightarrow> bool" where
  "truthy JUndefined = False"
| "truthy JNull = False"
| "truthy (JBool b) = b"
| "truthy (JNumber n) = (n \<noteq> 0)"
| "truthy (JString s) = (s \<noteq> [])"
| "truthy JObject = True"

text \<open>
  \<^verbatim>\<open>(q || (await ...catch(()=>null)) || '').trim().toLowerCase()\<close>: a value that is not
  a string has no \<^verbatim>\<open>trim\<close>, which is a \<^verbatim>\<open>TypeError\<close>.
\<close>

definition extract_domain :: "request \<Rightarrow> error + string" where
  "extract_domain req =
     (let q = (case query_domain req of None \<Rightarrow> JNull | Some s \<Rightarrow> JString s);
          b = (case json_domain req of None \<Rightarrow> JNull | Some v \<Rightarrow> v);
          raw = (if truthy q then q else if truthy b then b else JString [])
      in case raw of
           JString s \<Rightarrow> Inr (toLowerCase (trim s))
         | _ \<Rightarrow> Inl TypeError)"

record inference =
  domain :: string
  resolved_ips :: "string list"
  nameservers :: "string list"
  headerHints :: "string list"
  ips_in_cloudflare_ranges :: "string list"
  ns_using_cloudflare :: bool
  likely_using_cloudflare :: bool

text \<open>
  A response: its status, the \<^verbatim>\<open>Content-Type\<close> given in the options of
  \<^verbatim>\<open>new Response\<close> (if any), and its body. The object handed to
  \<^verbatim>\<open>JSON.stringify\<close> stands for the body text.
\<close>

datatype body = ErrorBody string | InferenceBody inference

record response =
  status_code :: nat
  content_type :: "string option"
  body :: body

text \<open>\<^verbatim>\<open>new Response(JSON.stringify({ error: 'Missing domain' }), { status: 400 })\<close>\<close>

definition missing_domain :: response where
  "missing_domain = \<lparr>status_code = 400, content_type = None, body = ErrorBody ''Missing domain''\<rparr>"

text \<open>\<^verbatim>\<open>new Response(JSON.stringify(inference, null, 2), { headers: { 'Content-Type': 'application/json' } })\<close>;
  the status is the default, 200.\<close>

definition json_response :: "inference \<Rightarrow> response" where
  "json_response rep =
     \<lparr>status_code = 200, content_type = Some ''application/json'', body = InferenceBody rep\<rparr>"

text \<open>
  The helper \<^verbatim>\<open>doh(name, type)\<close>: a rejected \<^verbatim>\<open>fetch\<close> leaves the handler,
  \<^verbatim>\<open>!r.ok\<close> gives \<^verbatim>\<open>null\<close>, otherwise the parsed body is returned, or the
  rejection of \<^verbatim>\<open>r.json()\<close> leaves the handler.
\<close>

definition doh :: "world \<Rightarrow> string \<Rightarrow> string \<Rightarrow> dns_json io" where
  "doh w name ty =
     (case doh_fetch w name ty of
        DohRejected \<Rightarrow> ([DohQuery name ty], Inl (FetchRejected (DohQuery name ty)))
      | DohResponse r_ok r_json \<Rightarrow>
          if \<not> r_ok then ([DohQuery name ty], Inr JsonNull)
          else (case r_json of
                  None \<Rightarrow> ([DohQuery name ty], Inl (JsonRejected (DohQuery name ty)))
                | Some j \<Rightarrow> ([DohQuery name ty], Inr j)))"

text \<open>\<^verbatim>\<open>(aJson && aJson.Answer) ? aJson.Answer.filter(a=>a.type===1).map(a=>a.data) : []\<close>\<close>

definition ipv4_of :: "dns_json \<Rightarrow> string list" where
  "ipv4_of aJson =
     (case aJson of
        JsonObject (Some ans) \<Rightarrow> map data (filter (\<lambda>a. type a = 1) ans)
      | _ \<Rightarrow> [])"

text \<open>\<^verbatim>\<open>(nsJson && nsJson.Answer) ? nsJson.Answer.map(a=>a.data.replace(/\.$/,'').toLowerCase()) : []\<close>\<close>

definition nameservers_of :: "dns_json \<Rightarrow> string list" where
  "nameservers_of nsJson =
     (case nsJson of
        JsonObject (Some ans) \<Rightarrow> map (\<lambda>a. toLowerCase (strip_trailing_dot (data a))) ans
      | _ \<Rightarrow> [])"

text \<open>The result of one probe: \<^verbatim>\<open>{ ok:true, status, headers }\<close> or
  \<^verbatim>\<open>{ ok:false, error }\<close>; a field that is not set is \<open>None\<close>.\<close>

record probe =
  ok :: bool
  status :: "nat option"
  headers :: "(string \<rightharpoonup> string) option"
  error :: "string option"

text \<open>The \<^verbatim>\<open>forEach\<close> over the five names keeps a header when its value is a non-empty
  string.\<close>

definition collect_headers :: "(string \<rightharpoonup> string) \<Rightarrow> (string \<rightharpoonup> string)" where
  "collect_headers hs =
     foldl (\<lambda>h k. case hs k of None \<Rightarrow> h | Some v \<Rightarrow> if v \<noteq> [] then h(k \<mapsto> v) else h)
       Map.empty [''server'', ''cf-ray'', ''cf-cache-status'', ''via'', ''x-powered-by'']"

text \<open>\<^verbatim>\<open>tryFetch(proto)\<close>: the HEAD call to \<^verbatim>\<open>proto://domain\<close>; what it throws is
  caught and turned into a result, so the call itself never ends the request.\<close>

definition tryFetch :: "world \<Rightarrow> string \<Rightarrow> string \<Rightarrow> probe io" where
  "tryFetch w dname proto =
     (case head_fetch w (proto @ ''://'' @ dname) of
        HeadResponse st hs \<Rightarrow>
          ([Head (proto @ ''://'' @ dname)],
           Inr \<lparr>ok = True, status = Some st, headers = Some (collect_headers hs), error = None\<rparr>)
      | HeadThrows e \<Rightarrow>
          ([Head (proto @ ''://'' @ dname)],
           Inr \<lparr>ok = False, status = None, headers = None, error = Some e\<rparr>))"

text \<open>\<^verbatim>\<open>let httpInfo = await tryFetch('https'); if (!httpInfo.ok) httpInfo = await tryFetch('http');\<close>\<close>

definition httpInfo :: "world \<Rightarrow> string \<Rightarrow> probe io" where
  "httpInfo w dname =
     io_bind (tryFetch w dname ''https'')
       (\<lambda>h. if \<not> ok h then tryFetch w dname ''http'' else io_return h)"

text \<open>\<^verbatim>\<open>await (await fetch(url)).text()\<close>: a rejection leaves the handler.\<close>

definition fetch_text :: "world \<Rightarrow> string \<Rightarrow> string io" where
  "fetch_text w url =
     (case text_fetch w url of
        TextRejected \<Rightarrow> ([Get url], Inl (FetchRejected (Get url)))
      | TextBody t \<Rightarrow> ([Get url], Inr t))"

text \<open>\<^verbatim>\<open>cfV4txt.split(/\r?\n/).concat(cfV6txt.split(/\r?\n/)).filter(Boolean)\<close>\<close>

definition cfRanges :: "string \<Rightarrow> string \<Rightarrow> string list" where
  "cfRanges cfV4txt cfV6txt = filter (\<lambda>l. l \<noteq> []) (split_lines cfV4txt @ split_lines cfV6txt)"

text \<open>\<^verbatim>\<open>nameservers.some(ns => ns.endsWith('ns.cloudflare.com') || ns.includes('cloudflare'))\<close>\<close>

definition nsUsesCloudflare :: "string list \<Rightarrow> bool" where
  "nsUsesCloudflare nss =
     list_ex (\<lambda>ns. endsWith ns ''ns.cloudflare.com'' \<or> includes_str ns ''cloudflare'') nss"

text \<open>
  The three tests on \<^verbatim>\<open>httpInfo.headers\<close>, each pushing its hint. Reading a header of a
  probe that has no \<^verbatim>\<open>headers\<close> field is a \<^verbatim>\<open>TypeError\<close>.
\<close>

definition headerIndications :: "probe \<Rightarrow> error + string list" where
  "headerIndications info =
     (case headers info of
        None \<Rightarrow> Inl TypeError
      | Some h \<Rightarrow>
          (let hi0 = [];
               hi1 = (if (case h ''server'' of None \<Rightarrow> False
                          | Some v \<Rightarrow> v \<noteq> [] \<and> includes_str (toLowerCase v) ''cloudflare'')
                      then hi0 @ [''server: cloudflare''] else hi0);
               hi2 = (if (case h ''cf-ray'' of None \<Rightarrow> False | Some v \<Rightarrow> v \<noteq> [])
                      then hi1 @ [''cf-ray header present''] else hi1);
               hi3 = (if (case h ''cf-cache-status'' of None \<Rightarrow> False | Some v \<Rightarrow> v \<noteq> [])
                      then hi2 @ [''cf-cache-status header present''] else hi2)
           in Inr hi3))"

text \<open>
  The handler. A missing domain is answered at once; otherwise the two lookups, the probe
  and the two range lists are awaited in this order, and an exception of any of them ends
  the request. The report is put together after the last call.
\<close>

definition onRequest :: "world \<Rightarrow> request \<Rightarrow> response io" where
  "onRequest w req =
     (case extract_domain req of
        Inl e \<Rightarrow> ([], Inl e)
      | Inr dname \<Rightarrow>
          if dname = [] then io_return missing_domain
          else
            io_bind (doh w dname ''A'') (\<lambda>aJson.
            io_bind (doh w dname ''NS'') (\<lambda>nsJson.
            io_bind (httpInfo w dname) (\<lambda>info.
            io_bind (fetch_text w ''https://www.cloudflare.com/ips-v4'') (\<lambda>cfV4txt.
            io_bind (fetch_text w ''https://www.cloudflare.com/ips-v6'') (\<lambda>cfV6txt.
              (let ipv4 = ipv4_of aJson;
                   nss = nameservers_of nsJson;
                   behind = ipsBehindCF ipv4 (cfRanges cfV4txt cfV6txt);
                   nsUses = nsUsesCloudflare nss
               in case headerIndications info of
                    Inl e \<Rightarrow> ([], Inl e)
                  | Inr his \<Rightarrow>
                      io_return (json_response
                        \<lparr>domain = dname,
                         resolved_ips = ipv4,
                         nameservers = nss,
                         headerHints = his,
                         ips_in_cloudflare_ranges = behind,
                         ns_using_cloudflare = nsUses,
                         likely_using_cloudflare =
                           (nsUses \<or> length his > 0 \<or> length behind > 0)\<rparr>))))))))"

text \<open>The probe calls among the outbound calls of a request.\<close>

fun is_probe :: "outbound \<Rightarrow> bool" where
  "is_probe (Head url) = True"
| "is_probe _ = False"

text \<open>The records of a resolver reply, empty when the reply is \<^verbatim>\<open>null\<close> or has no
  \<^verbatim>\<open>Answer\<close> field.\<close>

definition records_of :: "dns_json \<Rightarrow> answer list" where
  "records_of j = (case j of JsonObject (Some ans) \<Rightarrow> ans | _ \<Rightarrow> [])"

text \<open>A resolver reply that carries no records: a non-success status, or a body without an
  \<^verbatim>\<open>Answer\<close> field.\<close>

definition without_answer :: "doh_reply \<Rightarrow> bool" where
  "without_answer rp =
     (case rp of
        DohRejected \<Rightarrow> False
      | DohResponse r_ok j \<Rightarrow> \<not> r_ok \<or> j = Some (JsonObject None))"

section \<open>Scenarios\<close>

definition request_for :: "string \<Rightarrow> request" where
  "request_for d = \<lparr>query_domain = Some d, json_domain = None\<rparr>"

definition ranges_text :: string where
  "ranges_text = ''173.245.48.0/20'' @ [CHR 0x0D, CHR 0x0A] @ ''104.16.0.0/12'' @ [CHR 0x0A]"

text \<open>A resolver without records, a host that cannot be reached on either transport, and
  range lists that are served.\<close>

definition world_unreachable :: world where
  "world_unreachable =
     \<lparr>doh_fetch = (\<lambda>name ty. DohResponse True (Some (JsonObject None))),
      head_fetch = (\<lambda>url. HeadThrows ''TypeError: fetch failed''),
      text_fetch = (\<lambda>url. TextBody ranges_text)\<rparr>"

text \<open>A host that answers with \<^verbatim>\<open>server: cloudflare\<close> while its address and its name
  server point elsewhere.\<close>

definition world_header_only :: world where
  "world_header_only =
     \<lparr>doh_fetch = (\<lambda>name ty.
        if ty = ''A''
        then DohResponse True (Some (JsonObject (Some [\<lparr>type = 1, data = ''93.184.216.34''\<rparr>])))
        else DohResponse True (Some (JsonObject (Some [\<lparr>type = 2, data = ''ns1.example.com.''\<rparr>])))),
      head_fetch = (\<lambda>url. HeadResponse 200 [''server'' \<mapsto> ''cloudflare'']),
      text_fetch = (\<lambda>url. TextBody ranges_text)\<rparr>"

definition report_header_only :: inference where
  "report_header_only =
     \<lparr>domain = ''example.com'',
      resolved_ips = [''93.184.216.34''],
      nameservers = [''ns1.example.com''],
      headerHints = [''server: cloudflare''],
      ips_in_cloudflare_ranges = [],
      ns_using_cloudflare = False,
      likely_using_cloudflare = True\<rparr>"

text \<open>A host behind the provider: one of its two addresses lies in a published range, its
  name server is the provider's, and the answer carries the provider's headers. The secure
  transport fails, the plain one answers.\<close>

definition world_behind :: world where
  "world_behind =
     \<lparr>doh_fetch = (\<lambda>name ty.
        if ty = ''A''
        then DohResponse True (Some (JsonObject (Some
               [\<lparr>type = 1, data = ''104.16.1.1''\<rparr>,
                \<lparr>type = 5, data = ''alias.example.net.''\<rparr>,
                \<lparr>type = 1, data = ''93.184.216.34''\<rparr>])))
        else DohResponse True (Some (JsonObject (Some
               [\<lparr>type = 2, data = ''Lara.NS.Cloudflare.COM.''\<rparr>])))),
      head_fetch = (\<lambda>url.
        if url = ''http://shop.example''
        then HeadResponse 301 [''server'' \<mapsto> ''Cloudflare'', ''cf-ray'' \<mapsto> ''8a1b2c3d4e5f-AMS'']
        else HeadThrows ''TypeError: fetch failed''),
      text_fetch = (\<lambda>url.
        if url = ''https://www.cloudflare.com/ips-v4'' then TextBody ranges_text
        else TextBody (''2400:cb00::/32'' @ [CHR 0x0A]))\<rparr>"

definition report_behind :: inference where
  "report_behind =
     \<lparr>domain = ''shop.example'',
      resolved_ips = [''104.16.1.1'', ''93.184.216.34''],
      nameservers = [''lara.ns.cloudflare.com''],
      headerHints = [''server: cloudflare'', ''cf-ray header present''],
      ips_in_cloudflare_ranges = [''104.16.1.1''],
      ns_using_cloudflare = True,
      likely_using_cloudflare = True\<rparr>"

text \<open>A resolver that answers both lookups with a non-success status, in front of a host
  that answers without any of the five headers.\<close>

definition world_dns_down :: world where
  "world_dns_down =
     \<lparr>doh_fetch = (\<lambda>name ty. DohResponse False None),
      head_fetch = (\<lambda>url. HeadResponse 204 Map.empty),
      text_fetch = (\<lambda>url. TextBody ranges_text)\<rparr>"

definition report_dns_down :: inference where
  "report_dns_down =
     \<lparr>domain = ''example.org'',
      resolved_ips = [],
      nameservers = [],
      headerHints = [],
      ips_in_cloudflare_ranges = [],
      ns_using_cloudflare = False,
      likely_using_cloudflare = False\<rparr>"

text \<open>A resolver that answers the address lookup with a non-success status and the name
  server lookup with a record, in front of the same host.\<close>

definition world_a_down :: world where
  "world_a_down =
     \<lparr>doh_fetch = (\<lambda>name ty.
        if ty = ''A'' then DohResponse False None
        else DohResponse True (Some (JsonObject (Some [\<lparr>type = 2, data = ''NS1.Example.COM.''\<rparr>])))),
      head_fetch = (\<lambda>url. HeadResponse 204 Map.empty),
      text_fetch = (\<lambda>url. TextBody ranges_text)\<rparr>"

text \<open>The resolver and host of \<open>world_dns_down\<close>, with a range list that cannot be
  fetched.\<close>

definition world_no_ranges :: world where
  "world_no_ranges =
     \<lparr>doh_fetch = (\<lambda>name ty. DohResponse False None),
      head_fetch = (\<lambda>url. HeadResponse 204 Map.empty),
      text_fetch = (\<lambda>url. TextRejected)\<rparr>"

section \<open>Facts about the string functions\<close>

lemma take_eq_iff_prefix: "take (length t) s = t \<longleftrightarrow> prefix t s"
proof
  assume "take (length t) s = t"
  then show "prefix t s" by (metis take_is_prefix)
next
  assume "prefix t s"
  then obtain zs where "s = t @ zs" by (auto simp: prefix_def)
  then show "take (length t) s = t" by simp
qed

lemma includes_str_iff_sublist: "includes_str s t \<longleftrightarrow> sublist t s"
proof (induction s)
  case Nil
  show ?case by auto
next
  case (Cons c cs)
  have "includes_str (c # cs) t \<longleftrightarrow> prefix t (c # cs) \<or> includes_str cs t"
    using take_eq_iff_prefix [of t "c # cs"] by simp
  with Cons show ?case by (simp add: sublist_Cons_right)
qed

lemma endsWith_iff_suffix: "endsWith s t \<longleftrightarrow> suffix t s"
proof
  assume "endsWith s t"
  then have "s = take (length s - length t) s @ t"
    by (metis append_take_drop_id endsWith_def)
  then show "suffix t s" by (rule suffixI)
next
  assume "suffix t s"
  then obtain zs where "s = zs @ t" by (auto simp: suffix_def)
  then show "endsWith s t" by (simp add: endsWith_def)
qed

lemma split_char_not_Nil: "split_char sep s \<noteq> []"
  by (induction s) (auto, metis cons_first.elims list.distinct(1))

lemma set_cons_first: "ls \<noteq> [] \<Longrightarrow> \<Union> (set ` set (cons_first c ls)) = insert c (\<Union> (set ` set ls))"
  by (cases ls) auto

lemma split_char_chars: "set s \<subseteq> insert sep (\<Union> (set ` set (split_char sep s)))"
proof (induction s)
  case Nil
  show ?case by simp
next
  case (Cons c cs)
  show ?case
  proof (cases "c = sep")
    case True
    with Cons show ?thesis by auto
  next
    case False
    with Cons show ?thesis
      using set_cons_first [OF split_char_not_Nil, of c sep cs] by auto
  qed
qed

lemma split_char_append_sep:
  "sep \<notin> set s \<Longrightarrow> split_char sep (s @ sep # t) = s # split_char sep t"
  by (induction s) auto


lemma is_digit_not_slash_colon: "is_digit c \<Longrightarrow> c \<noteq> CHR ''/'' \<and> c \<noteq> CHR '':''"
  by (auto simp: is_digit_def)

lemma split_char_piece:
  assumes "c \<in> set s" and "c \<noteq> sep"
  shows "\<exists>p \<in> set (split_char sep s). c \<in> set p"
proof -
  from assms(1) have "c \<in> insert sep (\<Union> (set ` set (split_char sep s)))"
    using split_char_chars [of s sep] by (rule_tac subsetD)
  with assms(2) show ?thesis by blast
qed

lemma valid_dotted_quad_chars:
  assumes "valid_dotted_quad ip"
  shows "CHR ''/'' \<notin> set ip \<and> CHR '':'' \<notin> set ip"
proof -
  from assms have "list_all valid_octet (split_char CHR ''.'' ip)"
    by (simp add: valid_dotted_quad_def)
  then have digits: "\<And>p c. p \<in> set (split_char CHR ''.'' ip) \<Longrightarrow> c \<in> set p \<Longrightarrow> is_digit c"
    by (simp add: valid_octet_def list_all_iff)
  have "c \<notin> set ip" if "\<not> is_digit c" and "c \<noteq> CHR ''.''" for c
  proof
    assume "c \<in> set ip"
    with that(2) obtain p where "p \<in> set (split_char CHR ''.'' ip)" and "c \<in> set p"
      using split_char_piece by blast
    with digits that(1) show False by blast
  qed
  moreover have "\<not> is_digit CHR ''/''" and "\<not> is_digit CHR '':''"
    by (simp_all add: is_digit_def)
  moreover have "CHR ''/'' \<noteq> CHR ''.''" and "CHR '':'' \<noteq> CHR ''.''"
    by simp_all
  ultimately show ?thesis by blast
qed


section \<open>Facts about the effects\<close>

lemma io_bind_snd_Inr:
  "snd (io_bind m f) = Inr y \<longleftrightarrow> (\<exists>x. snd m = Inr x \<and> snd (f x) = Inr y)"
  by (cases m) (auto simp: io_bind_def split: sum.splits prod.splits)

lemma io_bind_fst:
  "fst (io_bind m f) = (case snd m of Inl e \<Rightarrow> fst m | Inr x \<Rightarrow> fst m @ fst (f x))"
  by (cases m) (auto simp: io_bind_def split: sum.splits prod.splits)

lemma io_bind_snd:
  "snd (io_bind m f) = (case snd m of Inl e \<Rightarrow> Inl e | Inr x \<Rightarrow> snd (f x))"
  by (cases m) (auto simp: io_bind_def split: sum.splits prod.splits)

lemma onRequest_success:
  assumes "snd (onRequest w req) = Inr r" and "body r = InferenceBody rep"
  shows "\<exists>dname aJson nsJson info cfV4txt cfV6txt his.
           extract_domain req = Inr dname \<and> dname \<noteq> [] \<and>
           snd (doh w dname ''A'') = Inr aJson \<and>
           snd (doh w dname ''NS'') = Inr nsJson \<and>
           snd (httpInfo w dname) = Inr info \<and>
           snd (fetch_text w ''https://www.cloudflare.com/ips-v4'') = Inr cfV4txt \<and>
           snd (fetch_text w ''https://www.cloudflare.com/ips-v6'') = Inr cfV6txt \<and>
           headerIndications info = Inr his \<and>
           rep = \<lparr>domain = dname,
                  resolved_ips = ipv4_of aJson,
                  nameservers = nameservers_of nsJson,
                  headerHints = his,
                  ips_in_cloudflare_ranges = ipsBehindCF (ipv4_of aJson) (cfRanges cfV4txt cfV6txt),
                  ns_using_cloudflare = nsUsesCloudflare (nameservers_of nsJson),
                  likely_using_cloudflare =
                    (nsUsesCloudflare (nameservers_of nsJson) \<or> length his > 0 \<or>
                     length (ipsBehindCF (ipv4_of aJson) (cfRanges cfV4txt cfV6txt)) > 0)\<rparr>"
proof (cases "extract_domain req")
  case (Inl e)
  with assms(1) show ?thesis by (simp add: onRequest_def)
next
  case (Inr dname)
  show ?thesis
  proof (cases "dname = []")
    case True
    with Inr assms show ?thesis
      by (auto simp: onRequest_def io_return_def missing_domain_def)
  next
    case False
    with Inr assms(1) obtain aJson nsJson info cfV4txt cfV6txt where
      a: "snd (doh w dname ''A'') = Inr aJson" and
      n: "snd (doh w dname ''NS'') = Inr nsJson" and
      h: "snd (httpInfo w dname) = Inr info" and
      v4: "snd (fetch_text w ''https://www.cloudflare.com/ips-v4'') = Inr cfV4txt" and
      v6: "snd (fetch_text w ''https://www.cloudflare.com/ips-v6'') = Inr cfV6txt" and
      fin: "snd (let ipv4 = ipv4_of aJson;
                   nss = nameservers_of nsJson;
                   behind = ipsBehindCF ipv4 (cfRanges cfV4txt cfV6txt);
                   nsUses = nsUsesCloudflare nss
               in case headerIndications info of
                    Inl e \<Rightarrow> ([], Inl e)
                  | Inr his \<Rightarrow>
                      io_return (json_response
                        \<lparr>domain = dname,
                         resolved_ips = ipv4,
                         nameservers = nss,
                         headerHints = his,
                         ips_in_cloudflare_ranges = behind,
                         ns_using_cloudflare = nsUses,
                         likely_using_cloudflare =
                           (nsUses \<or> length his > 0 \<or> length behind > 0)\<rparr>)) = Inr r"
      unfolding onRequest_def by (simp add: io_bind_snd_Inr) blast
    from fin assms(2) obtain his where "headerIndications info = Inr his" and
      "rep = \<lparr>domain = dname,
                  resolved_ips = ipv4_of aJson,
                  nameservers = nameservers_of nsJson,
                  headerHints = his,
                  ips_in_cloudflare_ranges = ipsBehindCF (ipv4_of aJson) (cfRanges cfV4txt cfV6txt),
                  ns_using_cloudflare = nsUsesCloudflare (nameservers_of nsJson),
                  likely_using_cloudflare =
                    (nsUsesCloudflare (nameservers_of nsJson) \<or> length his > 0 \<or>
                     length (ipsBehindCF (ipv4_of aJson) (cfRanges cfV4txt cfV6txt)) > 0)\<rparr>"
      by (auto simp: Let_def io_return_def json_response_def split: sum.splits)
    with Inr False a n h v4 v6 show ?thesis by blast
  qed
qed

lemma tryFetch_fst: "fst (tryFetch w d p) = [Head (p @ ''://'' @ d)]"
  by (simp add: tryFetch_def split: head_reply.splits)

lemma tryFetch_snd_Inr: "\<exists>info. snd (tryFetch w d p) = Inr info"
  by (simp add: tryFetch_def split: head_reply.splits)

lemma tryFetch_headers:
  "snd (tryFetch w d p) = Inr info \<Longrightarrow> headers info = Some h \<Longrightarrow> ok info \<and> (\<exists>hs. h = collect_headers hs)"
  by (auto simp: tryFetch_def split: head_reply.splits)

lemma httpInfo_snd:
  "snd (tryFetch w d ''https'') = Inr first \<Longrightarrow>
   snd (httpInfo w d) = (if ok first then Inr first else snd (tryFetch w d ''http''))"
  by (simp add: httpInfo_def io_bind_snd io_return_def)

lemma httpInfo_fst:
  "snd (tryFetch w d ''https'') = Inr first \<Longrightarrow>
   fst (httpInfo w d) =
     (if ok first then [Head (''https://'' @ d)] else [Head (''https://'' @ d), Head (''http://'' @ d)])"
  by (simp add: httpInfo_def io_bind_fst io_return_def tryFetch_fst)

lemma httpInfo_headers:
  assumes "snd (httpInfo w d) = Inr info" and "headers info = Some h"
  shows "\<exists>hs. h = collect_headers hs"
proof -
  obtain first where f: "snd (tryFetch w d ''https'') = Inr first"
    using tryFetch_snd_Inr by blast
  show ?thesis
  proof (cases "ok first")
    case True
    with f assms show ?thesis using httpInfo_snd [OF f] tryFetch_headers by auto
  next
    case False
    with f assms show ?thesis using httpInfo_snd [OF f] tryFetch_headers by auto
  qed
qed

lemma collect_fold_nonempty:
  "(\<And>k v. h0 k = Some v \<Longrightarrow> v \<noteq> []) \<Longrightarrow>
   foldl (\<lambda>h k. case hs k of None \<Rightarrow> h | Some v \<Rightarrow> if v \<noteq> [] then h(k \<mapsto> v) else h) h0 ks k' = Some v'
   \<Longrightarrow> v' \<noteq> []"
proof (induction ks arbitrary: h0)
  case Nil
  then show ?case by simp
next
  case (Cons a ks)
  let ?h1 = "case hs a of None \<Rightarrow> h0 | Some v \<Rightarrow> if v \<noteq> [] then h0(a \<mapsto> v) else h0"
  have "\<And>k v. ?h1 k = Some v \<Longrightarrow> v \<noteq> []"
    using Cons.prems(1) by (auto split: option.splits if_splits)
  moreover have "foldl (\<lambda>h k. case hs k of None \<Rightarrow> h | Some v \<Rightarrow> if v \<noteq> [] then h(k \<mapsto> v) else h) ?h1 ks k' = Some v'"
    using Cons.prems(2) by simp
  ultimately show ?case by (rule Cons.IH)
qed

lemma collect_headers_Some:
  assumes "collect_headers hs k = Some v"
  shows "v \<noteq> []"
proof (rule collect_fold_nonempty [where ?h0.0 = Map.empty and hs = hs and k' = k
      and ks = "[''server'', ''cf-ray'', ''cf-cache-status'', ''via'', ''x-powered-by'']"])
  show "\<And>k v. Map.empty k = Some v \<Longrightarrow> v \<noteq> []" by simp
  show "foldl (\<lambda>h k. case hs k of None \<Rightarrow> h | Some v \<Rightarrow> if v \<noteq> [] then h(k \<mapsto> v) else h)
       Map.empty [''server'', ''cf-ray'', ''cf-cache-status'', ''via'', ''x-powered-by''] k = Some v"
    using assms unfolding collect_headers_def .
qed

lemma doh_fst: "fst (doh w n t) = [DohQuery n t]"
  by (simp add: doh_def split: doh_reply.splits option.splits)

lemma fetch_text_fst: "fst (fetch_text w u) = [Get u]"
  by (simp add: fetch_text_def split: text_reply.splits)

lemma probes_onRequest:
  "filter is_probe (fst (onRequest w req)) =
     (case extract_domain req of
        Inl e \<Rightarrow> []
      | Inr dname \<Rightarrow>
          if dname = [] then []
          else (case snd (doh w dname ''A'') of
                  Inl e \<Rightarrow> []
                | Inr aJson \<Rightarrow>
                    (case snd (doh w dname ''NS'') of
                       Inl e \<Rightarrow> []
                     | Inr nsJson \<Rightarrow> filter is_probe (fst (httpInfo w dname)))))"
  by (simp add: onRequest_def io_bind_fst io_bind_snd io_return_def doh_fst fetch_text_fst Let_def
      split: sum.splits)

lemma hints_build:
  "(let hi0 = [];
        hi1 = (if a then hi0 @ [x] else hi0);
        hi2 = (if b then hi1 @ [y] else hi1);
        hi3 = (if c then hi2 @ [z] else hi2)
    in (Inr hi3 :: error + string list))
   = Inr ((if a then [x] else []) @ (if b then [y] else []) @ (if c then [z] else []))"
  by (simp add: Let_def)

lemma headerIndications_Some:
  assumes "headers info = Some h"
  shows "headerIndications info =
     Inr ((if (\<exists>v. h ''server'' = Some v \<and> v \<noteq> [] \<and> includes_str (toLowerCase v) ''cloudflare'')
           then [''server: cloudflare''] else [])
          @ (if (\<exists>v. h ''cf-ray'' = Some v \<and> v \<noteq> []) then [''cf-ray header present''] else [])
          @ (if (\<exists>v. h ''cf-cache-status'' = Some v \<and> v \<noteq> [])
             then [''cf-cache-status header present''] else []))"
proof -
  have s: "(case h ''server'' of None \<Rightarrow> False
            | Some v \<Rightarrow> v \<noteq> [] \<and> includes_str (toLowerCase v) ''cloudflare'')
           = (\<exists>v. h ''server'' = Some v \<and> v \<noteq> [] \<and> includes_str (toLowerCase v) ''cloudflare'')"
    by (cases "h ''server''") simp_all
  have r: "(case h ''cf-ray'' of None \<Rightarrow> False | Some v \<Rightarrow> v \<noteq> [])
           = (\<exists>v. h ''cf-ray'' = Some v \<and> v \<noteq> [])"
    by (cases "h ''cf-ray''") simp_all
  have c: "(case h ''cf-cache-status'' of None \<Rightarrow> False | Some v \<Rightarrow> v \<noteq> [])
           = (\<exists>v. h ''cf-cache-status'' = Some v \<and> v \<noteq> [])"
    by (cases "h ''cf-cache-status''") simp_all
  show ?thesis
    unfolding headerIndications_def assms by (simp only: option.case s r c hints_build)
qed



lemma fetch_text_Inr: "snd (fetch_text w u) = Inr t \<longleftrightarrow> text_fetch w u = TextBody t"
  by (simp add: fetch_text_def split: text_reply.splits)


lemma tryFetch_ok_headers:
  "snd (tryFetch w d p) = Inr info \<Longrightarrow> ok info \<Longrightarrow> \<exists>h. headers info = Some h"
  by (auto simp: tryFetch_def split: head_reply.splits)

lemma httpInfo_ok_headers:
  assumes "snd (httpInfo w d) = Inr info" and "ok info"
  shows "\<exists>h. headers info = Some h"
proof -
  obtain first where f: "snd (tryFetch w d ''https'') = Inr first"
    using tryFetch_snd_Inr by blast
  show ?thesis
  proof (cases "ok first")
    case True
    with f assms show ?thesis using httpInfo_snd [OF f] tryFetch_ok_headers by auto
  next
    case False
    with f assms show ?thesis using httpInfo_snd [OF f] tryFetch_ok_headers by auto
  qed
qed

lemma doh_without_answer:
  assumes "without_answer (doh_fetch w name ty)"
  shows "\<exists>j. snd (doh w name ty) = Inr j \<and> ipv4_of j = [] \<and> nameservers_of j = []"
proof (cases "doh_fetch w name ty")
  case DohRejected
  with assms show ?thesis by (simp add: without_answer_def)
next
  case (DohResponse r_ok j)
  with assms show ?thesis
    by (auto simp: without_answer_def doh_def ipv4_of_def nameservers_of_def)
qed

lemma onRequest_run:
  assumes "extract_domain req = Inr dname" and "dname \<noteq> []"
    and "snd (doh w dname ''A'') = Inr aJson"
    and "snd (doh w dname ''NS'') = Inr nsJson"
    and "snd (httpInfo w dname) = Inr info"
    and "snd (fetch_text w ''https://www.cloudflare.com/ips-v4'') = Inr cfV4txt"
    and "snd (fetch_text w ''https://www.cloudflare.com/ips-v6'') = Inr cfV6txt"
    and "headerIndications info = Inr his"
  shows "snd (onRequest w req) =
           Inr (json_response
             \<lparr>domain = dname,
              resolved_ips = ipv4_of aJson,
              nameservers = nameservers_of nsJson,
              headerHints = his,
              ips_in_cloudflare_ranges = ipsBehindCF (ipv4_of aJson) (cfRanges cfV4txt cfV6txt),
              ns_using_cloudflare = nsUsesCloudflare (nameservers_of nsJson),
              likely_using_cloudflare =
                (nsUsesCloudflare (nameservers_of nsJson) \<or> length his > 0 \<or>
                 length (ipsBehindCF (ipv4_of aJson) (cfRanges cfV4txt cfV6txt)) > 0)\<rparr>)"
  using assms by (simp add: onRequest_def io_bind_snd io_return_def Let_def)

lemma run_header_only:
  "onRequest world_header_only (request_for ''example.com'') =
     ([DohQuery ''example.com'' ''A'', DohQuery ''example.com'' ''NS'',
       Head ''https://example.com'',
       Get ''https://www.cloudflare.com/ips-v4'', Get ''https://www.cloudflare.com/ips-v6''],
      Inr (json_response report_header_only))"
  by code_simp

lemma run_behind:
  "onRequest world_behind (request_for ''Shop.Example'') =
     ([DohQuery ''shop.example'' ''A'', DohQuery ''shop.example'' ''NS'',
       Head ''https://shop.example'', Head ''http://shop.example'',
       Get ''https://www.cloudflare.com/ips-v4'', Get ''https://www.cloudflare.com/ips-v6''],
      Inr (json_response report_behind))"
  by code_simp

lemma body_json_response: "body (json_response rep) = InferenceBody rep"
  by (simp add: json_response_def)


lemma trim_all_ws:
  assumes "list_all is_ws s"
  shows "trim s = []"
proof -
  from assms have e: "dropWhile is_ws s = []"
    by (simp add: list_all_iff dropWhile_eq_Nil_conv)
  show ?thesis unfolding trim_def e by simp
qed

section \<open>The claims\<close>

text \<open>
  C1 (the code departs from it). The claim: when the HEAD probe fails on both transports,
  the request still completes and reports \<open>headerHints = []\<close>. In the code the failed
  probe has no \<^verbatim>\<open>headers\<close> field, and the first header test reads
  \<^verbatim>\<open>httpInfo.headers['server']\<close>: the request ends with a \<^verbatim>\<open>TypeError\<close> after all six
  outbound calls, and no response is produced.
\<close>

theorem probe_failure_raises:
  "onRequest world_unreachable (request_for ''example.invalid'') =
     ([DohQuery ''example.invalid'' ''A'', DohQuery ''example.invalid'' ''NS'',
       Head ''https://example.invalid'', Head ''http://example.invalid'',
       Get ''https://www.cloudflare.com/ips-v4'', Get ''https://www.cloudflare.com/ips-v6''],
      Inl TypeError)"
  by code_simp

text \<open>
  C2 (the code departs from it). The claim: every address is contained in
  \<^verbatim>\<open>0.0.0.0/0\<close>. In the code the shift count \<open>32 - 0\<close> is taken modulo 32, so the mask of
  \<^verbatim>\<open>/0\<close> is \<^verbatim>\<open>0xFFFFFFFF\<close> instead of 0, and \<^verbatim>\<open>1.2.3.4\<close> is not contained.
\<close>

theorem slash_zero_matches_only_zero:
  "maskInt (Some ''0'') = Fin 4294967295 \<and> \<not> cidrContains ''0.0.0.0/0'' ''1.2.3.4''"
  by code_simp

text \<open>
  C3. In every response that carries a report, \<open>likely_using_cloudflare\<close> is true exactly
  when \<open>ns_using_cloudflare\<close> is true, or \<open>headerHints\<close> is not empty, or
  \<open>ips_in_cloudflare_ranges\<close> is not empty; it is true in the run where only a header hint
  is present.
\<close>

theorem likely_using_cloudflare_iff:
  "(snd (onRequest w req) = Inr r \<and> body r = InferenceBody rep \<longrightarrow>
      (likely_using_cloudflare rep \<longleftrightarrow>
         ns_using_cloudflare rep \<or> headerHints rep \<noteq> [] \<or> ips_in_cloudflare_ranges rep \<noteq> []))
   \<and> (snd (onRequest world_header_only (request_for ''example.com''))
         = Inr (json_response report_header_only)
       \<and> \<not> ns_using_cloudflare report_header_only
       \<and> ips_in_cloudflare_ranges report_header_only = []
       \<and> headerHints report_header_only = [''server: cloudflare'']
       \<and> likely_using_cloudflare report_header_only)"
proof (intro conjI impI)
  assume "snd (onRequest w req) = Inr r \<and> body r = InferenceBody rep"
  then show "likely_using_cloudflare rep \<longleftrightarrow>
         ns_using_cloudflare rep \<or> headerHints rep \<noteq> [] \<or> ips_in_cloudflare_ranges rep \<noteq> []"
    using onRequest_success [of w req r rep] by auto
next
  show "snd (onRequest world_header_only (request_for ''example.com''))
         = Inr (json_response report_header_only)"
    by (simp add: run_header_only)
qed (simp_all add: report_header_only_def)

theorem likely_using_cloudflare_iff_witness:
  "snd (onRequest world_behind (request_for ''Shop.Example'')) = Inr (json_response report_behind)
   \<and> body (json_response report_behind) = InferenceBody report_behind
   \<and> (likely_using_cloudflare report_behind \<longleftrightarrow>
         ns_using_cloudflare report_behind \<or> headerHints report_behind \<noteq> []
         \<or> ips_in_cloudflare_ranges report_behind \<noteq> [])"
proof -
  have run: "snd (onRequest world_behind (request_for ''Shop.Example'')) = Inr (json_response report_behind)"
    by (simp add: run_behind)
  from run body_json_response [of report_behind] likely_using_cloudflare_iff
    [of world_behind "request_for ''Shop.Example''" "json_response report_behind" report_behind]
  show ?thesis by blast
qed

text \<open>
  C4. When the extracted domain, trimmed and in lower case, is empty, the response has
  status 400 and the body \<^verbatim>\<open>{"error":"Missing domain"}\<close>, and no outbound call is made.
  This is the case when both the parameter and the body are missing or unreadable, and when
  the value is white space only.
\<close>

theorem missing_domain_400:
  "(extract_domain req = Inr [] \<longrightarrow> onRequest w req = ([], Inr missing_domain))
   \<and> status_code missing_domain = 400
   \<and> body missing_domain = ErrorBody ''Missing domain''
   \<and> extract_domain \<lparr>query_domain = None, json_domain = None\<rparr> = Inr []
   \<and> extract_domain \<lparr>query_domain = None, json_domain = Some JUndefined\<rparr> = Inr []
   \<and> (s \<noteq> [] \<and> list_all is_ws s \<longrightarrow>
        extract_domain \<lparr>query_domain = Some s, json_domain = b\<rparr> = Inr [])
   \<and> (list_all is_ws s \<longrightarrow>
        extract_domain \<lparr>query_domain = None, json_domain = Some (JString s)\<rparr> = Inr [])"
  by (auto simp: onRequest_def io_return_def missing_domain_def extract_domain_def
      toLowerCase_def trim_all_ws)

theorem missing_domain_400_witness:
  "extract_domain (request_for [CHR '' '', CHR 0x09, CHR '' '']) = Inr []
   \<and> onRequest world_behind (request_for [CHR '' '', CHR 0x09, CHR '' '']) = ([], Inr missing_domain)"
proof -
  have h: "extract_domain (request_for [CHR '' '', CHR 0x09, CHR '' '']) = Inr []"
    by code_simp
  with missing_domain_400 [of "request_for [CHR '' '', CHR 0x09, CHR '' '']" world_behind]
  show ?thesis by blast
qed

text \<open>
  C5. In every response that carries a report, \<open>ns_using_cloudflare\<close> is true exactly when
  some record of the NS answer has a name that, with one trailing dot removed and in lower
  case, ends with \<^verbatim>\<open>ns.cloudflare.com\<close> or contains \<^verbatim>\<open>cloudflare\<close>. Both
  \<^verbatim>\<open>NS.CLOUDFLARE.COM.\<close> and \<^verbatim>\<open>ns.cloudflare.com\<close> match.
\<close>

theorem ns_matching:
  "(snd (onRequest w req) = Inr r \<and> body r = InferenceBody rep \<longrightarrow>
      (\<exists>dname nsJson.
         extract_domain req = Inr dname \<and> snd (doh w dname ''NS'') = Inr nsJson \<and>
         (ns_using_cloudflare rep \<longleftrightarrow>
            (\<exists>a \<in> set (records_of nsJson).
               suffix ''ns.cloudflare.com'' (toLowerCase (strip_trailing_dot (data a))) \<or>
               sublist ''cloudflare'' (toLowerCase (strip_trailing_dot (data a)))))))
   \<and> nsUsesCloudflare (nameservers_of (JsonObject (Some [\<lparr>type = 2, data = ''NS.CLOUDFLARE.COM.''\<rparr>])))
   \<and> nsUsesCloudflare (nameservers_of (JsonObject (Some [\<lparr>type = 2, data = ''ns.cloudflare.com''\<rparr>])))"
proof (intro conjI impI)
  assume "snd (onRequest w req) = Inr r \<and> body r = InferenceBody rep"
  then obtain dname nsJson where
    d: "extract_domain req = Inr dname" and n: "snd (doh w dname ''NS'') = Inr nsJson" and
    u: "ns_using_cloudflare rep = nsUsesCloudflare (nameservers_of nsJson)"
    using onRequest_success [of w req r rep] by auto
  have "nsUsesCloudflare (nameservers_of nsJson) \<longleftrightarrow>
          (\<exists>a \<in> set (records_of nsJson).
               suffix ''ns.cloudflare.com'' (toLowerCase (strip_trailing_dot (data a))) \<or>
               sublist ''cloudflare'' (toLowerCase (strip_trailing_dot (data a))))"
    by (auto simp: nsUsesCloudflare_def nameservers_of_def records_of_def list_ex_iff
        endsWith_iff_suffix includes_str_iff_sublist split: dns_json.splits option.splits)
  with d n u show "\<exists>dname nsJson.
         extract_domain req = Inr dname \<and> snd (doh w dname ''NS'') = Inr nsJson \<and>
         (ns_using_cloudflare rep \<longleftrightarrow>
            (\<exists>a \<in> set (records_of nsJson).
               suffix ''ns.cloudflare.com'' (toLowerCase (strip_trailing_dot (data a))) \<or>
               sublist ''cloudflare'' (toLowerCase (strip_trailing_dot (data a)))))"
    by blast
next
  show "nsUsesCloudflare (nameservers_of (JsonObject (Some [\<lparr>type = 2, data = ''NS.CLOUDFLARE.COM.''\<rparr>])))"
    by code_simp
next
  show "nsUsesCloudflare (nameservers_of (JsonObject (Some [\<lparr>type = 2, data = ''ns.cloudflare.com''\<rparr>])))"
    by code_simp
qed

theorem ns_matching_witness:
  "snd (onRequest world_behind (request_for ''Shop.Example'')) = Inr (json_response report_behind)
   \<and> body (json_response report_behind) = InferenceBody report_behind
   \<and> ns_using_cloudflare report_behind
   \<and> (\<exists>dname nsJson.
         extract_domain (request_for ''Shop.Example'') = Inr dname \<and>
         snd (doh world_behind dname ''NS'') = Inr nsJson \<and>
         (\<exists>a \<in> set (records_of nsJson).
               suffix ''ns.cloudflare.com'' (toLowerCase (strip_trailing_dot (data a))) \<or>
               sublist ''cloudflare'' (toLowerCase (strip_trailing_dot (data a)))))"
proof -
  have run: "snd (onRequest world_behind (request_for ''Shop.Example'')) = Inr (json_response report_behind)"
    by (simp add: run_behind)
  have u: "ns_using_cloudflare report_behind"
    by (simp add: report_behind_def)
  from run body_json_response [of report_behind] u ns_matching
    [of world_behind "request_for ''Shop.Example''" "json_response report_behind" report_behind]
  show ?thesis by blast
qed

text \<open>
  C6. The probe goes to the secure transport first; the plain transport is tried exactly
  when the first result has \<open>ok = false\<close>; a request makes at most two probe calls; and
  the hints of the report are computed from the result of the last probe made.
\<close>

theorem probe_policy:
  "length (filter is_probe (fst (onRequest w req))) \<le> 2
   \<and> (extract_domain req = Inr dname \<and> dname \<noteq> [] \<and>
      snd (doh w dname ''A'') = Inr aJson \<and> snd (doh w dname ''NS'') = Inr nsJson \<and>
      snd (tryFetch w dname ''https'') = Inr first \<longrightarrow>
        filter is_probe (fst (onRequest w req)) =
          (if ok first then [Head (''https://'' @ dname)]
           else [Head (''https://'' @ dname), Head (''http://'' @ dname)])
        \<and> snd (httpInfo w dname) = (if ok first then Inr first else snd (tryFetch w dname ''http''))
        \<and> (snd (onRequest w req) = Inr r \<and> body r = InferenceBody rep \<longrightarrow>
             (\<exists>info. snd (httpInfo w dname) = Inr info \<and>
                     headerIndications info = Inr (headerHints rep))))"
proof (intro conjI impI)
  show "length (filter is_probe (fst (onRequest w req))) \<le> 2"
  proof (cases "extract_domain req")
    case (Inl e)
    then show ?thesis by (simp add: probes_onRequest)
  next
    case (Inr d)
    obtain f where f: "snd (tryFetch w d ''https'') = Inr f"
      using tryFetch_snd_Inr by blast
    have "length (filter is_probe (fst (httpInfo w d))) \<le> 2"
      by (simp add: httpInfo_fst [OF f])
    with Inr show ?thesis
      by (simp add: probes_onRequest split: sum.splits)
  qed
next
  assume h: "extract_domain req = Inr dname \<and> dname \<noteq> [] \<and>
      snd (doh w dname ''A'') = Inr aJson \<and> snd (doh w dname ''NS'') = Inr nsJson \<and>
      snd (tryFetch w dname ''https'') = Inr first"
  then have f: "snd (tryFetch w dname ''https'') = Inr first" by simp
  from h show "filter is_probe (fst (onRequest w req)) =
          (if ok first then [Head (''https://'' @ dname)]
           else [Head (''https://'' @ dname), Head (''http://'' @ dname)])"
    by (simp add: probes_onRequest httpInfo_fst [OF f])
  show "snd (httpInfo w dname) = (if ok first then Inr first else snd (tryFetch w dname ''http''))"
    by (rule httpInfo_snd [OF f])
  assume "snd (onRequest w req) = Inr r \<and> body r = InferenceBody rep"
  with h show "\<exists>info. snd (httpInfo w dname) = Inr info \<and>
                     headerIndications info = Inr (headerHints rep)"
    using onRequest_success [of w req r rep] by auto
qed

theorem probe_policy_witness:
  "extract_domain (request_for ''Shop.Example'') = Inr ''shop.example'' \<and>
   snd (doh world_behind ''shop.example'' ''A'') = Inr (JsonObject (Some
               [\<lparr>type = 1, data = ''104.16.1.1''\<rparr>,
                \<lparr>type = 5, data = ''alias.example.net.''\<rparr>,
                \<lparr>type = 1, data = ''93.184.216.34''\<rparr>])) \<and>
   snd (doh world_behind ''shop.example'' ''NS'') = Inr (JsonObject (Some
               [\<lparr>type = 2, data = ''Lara.NS.Cloudflare.COM.''\<rparr>])) \<and>
   snd (tryFetch world_behind ''shop.example'' ''https'') =
     Inr \<lparr>ok = False, status = None, headers = None, error = Some ''TypeError: fetch failed''\<rparr> \<and>
   snd (onRequest world_behind (request_for ''Shop.Example'')) = Inr (json_response report_behind) \<and>
   filter is_probe (fst (onRequest world_behind (request_for ''Shop.Example''))) =
     [Head ''https://shop.example'', Head ''http://shop.example''] \<and>
   snd (httpInfo world_behind ''shop.example'') = snd (tryFetch world_behind ''shop.example'' ''http'') \<and>
   (\<exists>info. snd (httpInfo world_behind ''shop.example'') = Inr info \<and>
           headerIndications info = Inr [''server: cloudflare'', ''cf-ray header present''])"
proof -
  have d: "extract_domain (request_for ''Shop.Example'') = Inr ''shop.example''"
    by code_simp
  have a: "snd (doh world_behind ''shop.example'' ''A'') = Inr (JsonObject (Some
               [\<lparr>type = 1, data = ''104.16.1.1''\<rparr>,
                \<lparr>type = 5, data = ''alias.example.net.''\<rparr>,
                \<lparr>type = 1, data = ''93.184.216.34''\<rparr>]))"
    by (simp add: doh_def world_behind_def)
  have n: "snd (doh world_behind ''shop.example'' ''NS'') = Inr (JsonObject (Some
               [\<lparr>type = 2, data = ''Lara.NS.Cloudflare.COM.''\<rparr>]))"
    by (simp add: doh_def world_behind_def)
  have f: "snd (tryFetch world_behind ''shop.example'' ''https'') =
     Inr \<lparr>ok = False, status = None, headers = None, error = Some ''TypeError: fetch failed''\<rparr>"
    by (simp add: tryFetch_def world_behind_def)
  have run: "snd (onRequest world_behind (request_for ''Shop.Example'')) = Inr (json_response report_behind)"
    by (simp add: run_behind)
  have hh: "headerHints report_behind = [''server: cloudflare'', ''cf-ray header present'']"
    by (simp add: report_behind_def)
  have ne: "''shop.example'' \<noteq> []" by simp
  have k: "\<not> ok \<lparr>ok = False, status = None, headers = None, error = Some ''TypeError: fetch failed''\<rparr>"
    by simp
  from probe_policy [of world_behind "request_for ''Shop.Example''" "''shop.example''"
      "JsonObject (Some
               [\<lparr>type = 1, data = ''104.16.1.1''\<rparr>,
                \<lparr>type = 5, data = ''alias.example.net.''\<rparr>,
                \<lparr>type = 1, data = ''93.184.216.34''\<rparr>])"
      "JsonObject (Some [\<lparr>type = 2, data = ''Lara.NS.Cloudflare.COM.''\<rparr>])"
      "\<lparr>ok = False, status = None, headers = None, error = Some ''TypeError: fetch failed''\<rparr>"
      "json_response report_behind" report_behind]
    d a n f run body_json_response [of report_behind] ne
  have P: "filter is_probe (fst (onRequest world_behind (request_for ''Shop.Example''))) =
          (if ok \<lparr>ok = False, status = None, headers = None, error = Some ''TypeError: fetch failed''\<rparr>
           then [Head (''https://'' @ ''shop.example'')]
           else [Head (''https://'' @ ''shop.example''), Head (''http://'' @ ''shop.example'')])
        \<and> snd (httpInfo world_behind ''shop.example'') =
            (if ok \<lparr>ok = False, status = None, headers = None, error = Some ''TypeError: fetch failed''\<rparr>
             then Inr \<lparr>ok = False, status = None, headers = None, error = Some ''TypeError: fetch failed''\<rparr>
             else snd (tryFetch world_behind ''shop.example'' ''http''))
        \<and> (\<exists>info. snd (httpInfo world_behind ''shop.example'') = Inr info \<and>
                     headerIndications info = Inr (headerHints report_behind))"
    by blast
  from P k have p1: "filter is_probe (fst (onRequest world_behind (request_for ''Shop.Example''))) =
      [Head ''https://shop.example'', Head ''http://shop.example'']"
    by simp
  from P k have p2: "snd (httpInfo world_behind ''shop.example'') = snd (tryFetch world_behind ''shop.example'' ''http'')"
    by simp
  from P have "\<exists>info. snd (httpInfo world_behind ''shop.example'') = Inr info \<and>
           headerIndications info = Inr (headerHints report_behind)"
    by blast
  then have p3: "\<exists>info. snd (httpInfo world_behind ''shop.example'') = Inr info \<and>
           headerIndications info = Inr [''server: cloudflare'', ''cf-ray header present'']"
    by (simp only: hh)
  from d a n f run p1 p2 p3 show ?thesis by blast
qed

text \<open>
  C7 as stated fails: with a resolver that answers both lookups with a non-success status,
  the request ends in an error when a range list cannot be fetched.
\<close>

theorem dns_failure_is_error_when_ranges_fail:
  "doh_fetch world_no_ranges ''example.org'' ''A'' = DohResponse False None \<and>
   doh_fetch world_no_ranges ''example.org'' ''NS'' = DohResponse False None \<and>
   snd (doh world_no_ranges ''example.org'' ''A'') = Inr JsonNull \<and>
   snd (doh world_no_ranges ''example.org'' ''NS'') = Inr JsonNull \<and>
   onRequest world_no_ranges (request_for ''example.org'') =
     ([DohQuery ''example.org'' ''A'', DohQuery ''example.org'' ''NS'',
       Head ''https://example.org'', Get ''https://www.cloudflare.com/ips-v4''],
      Inl (FetchRejected (Get ''https://www.cloudflare.com/ips-v4'')))"
  by code_simp

text \<open>
  C7, amended. A lookup whose reply has a non-success status gives \<^verbatim>\<open>null\<close>; \<^verbatim>\<open>null\<close>
  and a reply without an \<^verbatim>\<open>Answer\<close> field both give an empty list of addresses and of
  name servers. For each of the two lookups: when it ends that way, the other lookup is not
  rejected, the probe is answered on one of the two transports and both range lists are
  fetched, the request produces the response with status 200 in which the list of that
  lookup (\<open>resolved_ips\<close> for the address lookup, \<open>nameservers\<close> for the name server
  lookup) is empty and the other list is what the other lookup gave. When both lookups end
  that way, both lists are empty.
\<close>

theorem dns_failure_is_empty:
  "(doh_fetch w name ty = DohResponse False b \<longrightarrow> snd (doh w name ty) = Inr JsonNull)
   \<and> ipv4_of JsonNull = [] \<and> nameservers_of JsonNull = []
   \<and> ipv4_of (JsonObject None) = [] \<and> nameservers_of (JsonObject None) = []
   \<and> (extract_domain req = Inr dname \<and> dname \<noteq> [] \<and>
       snd (httpInfo w dname) = Inr info \<and> ok info \<and>
       text_fetch w ''https://www.cloudflare.com/ips-v4'' = TextBody cfV4txt \<and>
       text_fetch w ''https://www.cloudflare.com/ips-v6'' = TextBody cfV6txt \<longrightarrow>
         (without_answer (doh_fetch w dname ''A'') \<and> snd (doh w dname ''NS'') = Inr nsJson \<longrightarrow>
            (\<exists>rep. snd (onRequest w req) = Inr (json_response rep) \<and>
                   status_code (json_response rep) = 200 \<and>
                   resolved_ips rep = [] \<and> nameservers rep = nameservers_of nsJson))
         \<and> (without_answer (doh_fetch w dname ''NS'') \<and> snd (doh w dname ''A'') = Inr aJson \<longrightarrow>
            (\<exists>rep. snd (onRequest w req) = Inr (json_response rep) \<and>
                   status_code (json_response rep) = 200 \<and>
                   resolved_ips rep = ipv4_of aJson \<and> nameservers rep = []))
         \<and> (without_answer (doh_fetch w dname ''A'') \<and> without_answer (doh_fetch w dname ''NS'') \<longrightarrow>
            (\<exists>rep. snd (onRequest w req) = Inr (json_response rep) \<and>
                   status_code (json_response rep) = 200 \<and>
                   resolved_ips rep = [] \<and> nameservers rep = [])))"
proof (intro conjI impI)
  assume "doh_fetch w name ty = DohResponse False b"
  then show "snd (doh w name ty) = Inr JsonNull" by (simp add: doh_def)
next
  assume h: "extract_domain req = Inr dname \<and> dname \<noteq> [] \<and>
       snd (httpInfo w dname) = Inr info \<and> ok info \<and>
       text_fetch w ''https://www.cloudflare.com/ips-v4'' = TextBody cfV4txt \<and>
       text_fetch w ''https://www.cloudflare.com/ips-v6'' = TextBody cfV6txt"
  assume g: "without_answer (doh_fetch w dname ''A'') \<and> snd (doh w dname ''NS'') = Inr nsJson"
  then obtain j where a: "snd (doh w dname ''A'') = Inr j" and a0: "ipv4_of j = []"
    using doh_without_answer by blast
  from g have n: "snd (doh w dname ''NS'') = Inr nsJson" by simp
  from h obtain hm where hm: "headers info = Some hm"
    using httpInfo_ok_headers by blast
  then obtain his where his: "headerIndications info = Inr his"
    using headerIndications_Some by blast
  from h have v4: "snd (fetch_text w ''https://www.cloudflare.com/ips-v4'') = Inr cfV4txt"
    and v6: "snd (fetch_text w ''https://www.cloudflare.com/ips-v6'') = Inr cfV6txt"
    by (simp_all add: fetch_text_Inr)
  from h have d: "extract_domain req = Inr dname" and ne: "dname \<noteq> []"
    and i: "snd (httpInfo w dname) = Inr info"
    by simp_all
  show "\<exists>rep. snd (onRequest w req) = Inr (json_response rep) \<and>
                status_code (json_response rep) = 200 \<and>
                resolved_ips rep = [] \<and> nameservers rep = nameservers_of nsJson"
    unfolding onRequest_run [OF d ne a n i v4 v6 his]
    by (rule exI, intro conjI, rule refl) (simp_all add: json_response_def a0)
next
  assume h: "extract_domain req = Inr dname \<and> dname \<noteq> [] \<and>
       snd (httpInfo w dname) = Inr info \<and> ok info \<and>
       text_fetch w ''https://www.cloudflare.com/ips-v4'' = TextBody cfV4txt \<and>
       text_fetch w ''https://www.cloudflare.com/ips-v6'' = TextBody cfV6txt"
  assume g: "without_answer (doh_fetch w dname ''NS'') \<and> snd (doh w dname ''A'') = Inr aJson"
  then obtain j where n: "snd (doh w dname ''NS'') = Inr j" and n0: "nameservers_of j = []"
    using doh_without_answer by blast
  from g have a: "snd (doh w dname ''A'') = Inr aJson" by simp
  from h obtain hm where hm: "headers info = Some hm"
    using httpInfo_ok_headers by blast
  then obtain his where his: "headerIndications info = Inr his"
    using headerIndications_Some by blast
  from h have v4: "snd (fetch_text w ''https://www.cloudflare.com/ips-v4'') = Inr cfV4txt"
    and v6: "snd (fetch_text w ''https://www.cloudflare.com/ips-v6'') = Inr cfV6txt"
    by (simp_all add: fetch_text_Inr)
  from h have d: "extract_domain req = Inr dname" and ne: "dname \<noteq> []"
    and i: "snd (httpInfo w dname) = Inr info"
    by simp_all
  show "\<exists>rep. snd (onRequest w req) = Inr (json_response rep) \<and>
                status_code (json_response rep) = 200 \<and>
                resolved_ips rep = ipv4_of aJson \<and> nameservers rep = []"
    unfolding onRequest_run [OF d ne a n i v4 v6 his]
    by (rule exI, intro conjI, rule refl) (simp_all add: json_response_def n0)
next
  assume h: "extract_domain req = Inr dname \<and> dname \<noteq> [] \<and>
       snd (httpInfo w dname) = Inr info \<and> ok info \<and>
       text_fetch w ''https://www.cloudflare.com/ips-v4'' = TextBody cfV4txt \<and>
       text_fetch w ''https://www.cloudflare.com/ips-v6'' = TextBody cfV6txt"
  assume g: "without_answer (doh_fetch w dname ''A'') \<and> without_answer (doh_fetch w dname ''NS'')"
  then obtain ja where a: "snd (doh w dname ''A'') = Inr ja" and a0: "ipv4_of ja = []"
    using doh_without_answer by blast
  from g obtain jn where n: "snd (doh w dname ''NS'') = Inr jn" and n0: "nameservers_of jn = []"
    using doh_without_answer by blast
  from h obtain hm where hm: "headers info = Some hm"
    using httpInfo_ok_headers by blast
  then obtain his where his: "headerIndications info = Inr his"
    using headerIndications_Some by blast
  from h have v4: "snd (fetch_text w ''https://www.cloudflare.com/ips-v4'') = Inr cfV4txt"
    and v6: "snd (fetch_text w ''https://www.cloudflare.com/ips-v6'') = Inr cfV6txt"
    by (simp_all add: fetch_text_Inr)
  from h have d: "extract_domain req = Inr dname" and ne: "dname \<noteq> []"
    and i: "snd (httpInfo w dname) = Inr info"
    by simp_all
  show "\<exists>rep. snd (onRequest w req) = Inr (json_response rep) \<and>
                status_code (json_response rep) = 200 \<and>
                resolved_ips rep = [] \<and> nameservers rep = []"
    unfolding onRequest_run [OF d ne a n i v4 v6 his]
    by (rule exI, intro conjI, rule refl) (simp_all add: json_response_def a0 n0)
qed (simp_all add: ipv4_of_def nameservers_of_def)

theorem dns_failure_is_empty_witness:
  "doh_fetch world_dns_down ''example.org'' ''A'' = DohResponse False None \<and>
   snd (doh world_dns_down ''example.org'' ''A'') = Inr JsonNull \<and>
   extract_domain (request_for ''example.org'') = Inr ''example.org'' \<and>
   without_answer (doh_fetch world_dns_down ''example.org'' ''A'') \<and>
   without_answer (doh_fetch world_dns_down ''example.org'' ''NS'') \<and>
   snd (doh world_dns_down ''example.org'' ''A'') = Inr JsonNull \<and>
   snd (doh world_dns_down ''example.org'' ''NS'') = Inr JsonNull \<and>
   snd (httpInfo world_dns_down ''example.org'') =
     Inr \<lparr>ok = True, status = Some 204, headers = Some (collect_headers Map.empty), error = None\<rparr> \<and>
   text_fetch world_dns_down ''https://www.cloudflare.com/ips-v4'' = TextBody ranges_text \<and>
   text_fetch world_dns_down ''https://www.cloudflare.com/ips-v6'' = TextBody ranges_text \<and>
   (\<exists>rep. snd (onRequest world_dns_down (request_for ''example.org'')) = Inr (json_response rep) \<and>
          status_code (json_response rep) = 200 \<and>
          resolved_ips rep = [] \<and> nameservers rep = []) \<and>
   without_answer (doh_fetch world_a_down ''example.org'' ''A'') \<and>
   snd (doh world_a_down ''example.org'' ''NS'') =
     Inr (JsonObject (Some [\<lparr>type = 2, data = ''NS1.Example.COM.''\<rparr>])) \<and>
   snd (httpInfo world_a_down ''example.org'') =
     Inr \<lparr>ok = True, status = Some 204, headers = Some (collect_headers Map.empty), error = None\<rparr> \<and>
   text_fetch world_a_down ''https://www.cloudflare.com/ips-v4'' = TextBody ranges_text \<and>
   text_fetch world_a_down ''https://www.cloudflare.com/ips-v6'' = TextBody ranges_text \<and>
   (\<exists>rep. snd (onRequest world_a_down (request_for ''example.org'')) = Inr (json_response rep) \<and>
          status_code (json_response rep) = 200 \<and>
          resolved_ips rep = [] \<and> nameservers rep = [''ns1.example.com''])"
proof -
  have f: "doh_fetch world_dns_down ''example.org'' ''A'' = DohResponse False None"
    by (simp add: world_dns_down_def)
  have d: "extract_domain (request_for ''example.org'') = Inr ''example.org''"
    by code_simp
  have ne: "''example.org'' \<noteq> []" by simp
  have k: "ok \<lparr>ok = True, status = Some 204, headers = Some (collect_headers Map.empty), error = None\<rparr>"
    by simp
  have wa: "without_answer (doh_fetch world_dns_down ''example.org'' ''A'')"
    and wn: "without_answer (doh_fetch world_dns_down ''example.org'' ''NS'')"
    by (simp_all add: world_dns_down_def without_answer_def)
  have ja: "snd (doh world_dns_down ''example.org'' ''A'') = Inr JsonNull"
    and jn: "snd (doh world_dns_down ''example.org'' ''NS'') = Inr JsonNull"
    by (simp_all add: doh_def world_dns_down_def)
  have i: "snd (httpInfo world_dns_down ''example.org'') =
     Inr \<lparr>ok = True, status = Some 204, headers = Some (collect_headers Map.empty), error = None\<rparr>"
    by (simp add: httpInfo_def tryFetch_def world_dns_down_def io_bind_def io_return_def)
  have v4: "text_fetch world_dns_down ''https://www.cloudflare.com/ips-v4'' = TextBody ranges_text"
    and v6: "text_fetch world_dns_down ''https://www.cloudflare.com/ips-v6'' = TextBody ranges_text"
    by (simp_all add: world_dns_down_def)
  from dns_failure_is_empty [of world_dns_down "''example.org''" "''A''" None
      "request_for ''example.org''" "''example.org''"
      "\<lparr>ok = True, status = Some 204, headers = Some (collect_headers Map.empty), error = None\<rparr>"
      ranges_text ranges_text JsonNull JsonNull] f d ne wa wn ja jn i k v4 v6
  have both: "snd (doh world_dns_down ''example.org'' ''A'') = Inr JsonNull \<and>
      (\<exists>rep. snd (onRequest world_dns_down (request_for ''example.org'')) = Inr (json_response rep) \<and>
          status_code (json_response rep) = 200 \<and>
          resolved_ips rep = [] \<and> nameservers rep = [])"
    by blast
  have wa': "without_answer (doh_fetch world_a_down ''example.org'' ''A'')"
    by (simp add: world_a_down_def without_answer_def)
  have jn': "snd (doh world_a_down ''example.org'' ''NS'') =
     Inr (JsonObject (Some [\<lparr>type = 2, data = ''NS1.Example.COM.''\<rparr>]))"
    by (simp add: doh_def world_a_down_def)
  have i': "snd (httpInfo world_a_down ''example.org'') =
     Inr \<lparr>ok = True, status = Some 204, headers = Some (collect_headers Map.empty), error = None\<rparr>"
    by (simp add: httpInfo_def tryFetch_def world_a_down_def io_bind_def io_return_def)
  have v4': "text_fetch world_a_down ''https://www.cloudflare.com/ips-v4'' = TextBody ranges_text"
    and v6': "text_fetch world_a_down ''https://www.cloudflare.com/ips-v6'' = TextBody ranges_text"
    by (simp_all add: world_a_down_def)
  have nl: "nameservers_of (JsonObject (Some [\<lparr>type = 2, data = ''NS1.Example.COM.''\<rparr>]))
      = [''ns1.example.com'']"
    by code_simp
  from dns_failure_is_empty [of world_a_down "''example.org''" "''A''" None
      "request_for ''example.org''" "''example.org''"
      "\<lparr>ok = True, status = Some 204, headers = Some (collect_headers Map.empty), error = None\<rparr>"
      ranges_text ranges_text "JsonObject (Some [\<lparr>type = 2, data = ''NS1.Example.COM.''\<rparr>])"]
    d ne wa' jn' i' k v4' v6'
  have "\<exists>rep. snd (onRequest world_a_down (request_for ''example.org'')) = Inr (json_response rep) \<and>
          status_code (json_response rep) = 200 \<and>
          resolved_ips rep = [] \<and>
          nameservers rep = nameservers_of (JsonObject (Some [\<lparr>type = 2, data = ''NS1.Example.COM.''\<rparr>]))"
    by blast
  then have half: "\<exists>rep. snd (onRequest world_a_down (request_for ''example.org'')) = Inr (json_response rep) \<and>
          status_code (json_response rep) = 200 \<and>
          resolved_ips rep = [] \<and> nameservers rep = [''ns1.example.com'']"
    by (simp only: nl)
  from f d wa wn ja jn i v4 v6 both wa' jn' i' v4' v6' half show ?thesis by blast
qed

text \<open>
  C8. Containment is reflexive at prefix length 32: a valid dotted quad is contained in
  the range written as itself followed by \<^verbatim>\<open>/32\<close>.
\<close>

theorem cidr_reflexive_32:
  "valid_dotted_quad ip \<Longrightarrow> cidrContains (ip @ ''/32'') ip"
proof -
  assume v: "valid_dotted_quad ip"
  then have s: "CHR ''/'' \<notin> set ip" and c: "CHR '':'' \<notin> set ip"
    using valid_dotted_quad_chars by auto
  have "split_char CHR ''/'' (ip @ ''/32'') = ip # split_char CHR ''/'' ''32''"
    using split_char_append_sep [OF s, of "''32''"] by simp
  then have sp: "split_char CHR ''/'' (ip @ ''/32'') = [ip, ''32'']"
    by simp
  from c have "CHR '':'' \<notin> set (ip @ ''/32'')" by simp
  with sp show ?thesis
    by (simp add: cidrContains_def Let_def)
qed

theorem cidr_reflexive_32_witness:
  "valid_dotted_quad ''203.0.113.255'' \<and> cidrContains (''203.0.113.255'' @ ''/32'') ''203.0.113.255''"
proof -
  have v: "valid_dotted_quad ''203.0.113.255''" by code_simp
  with cidr_reflexive_32 [of "''203.0.113.255''"] show ?thesis by blast
qed

text \<open>
  C9. In every response that carries a report, \<open>headerHints\<close> holds exactly the hints whose
  test succeeds on the headers kept from the probe: \<^verbatim>\<open>server: cloudflare\<close> when the
  \<^verbatim>\<open>server\<close> header is there and its value in lower case contains \<^verbatim>\<open>cloudflare\<close>,
  \<^verbatim>\<open>cf-ray header present\<close> when \<^verbatim>\<open>cf-ray\<close> was kept, and
  \<^verbatim>\<open>cf-cache-status header present\<close> when \<^verbatim>\<open>cf-cache-status\<close> was kept. The hints
  come in this order, nothing else occurs, and none occurs twice.
\<close>

theorem header_hints_exact:
  "snd (onRequest w req) = Inr r \<and> body r = InferenceBody rep \<longrightarrow>
     (\<exists>dname info h.
        extract_domain req = Inr dname \<and> snd (httpInfo w dname) = Inr info \<and>
        headers info = Some h \<and>
        (''server: cloudflare'' \<in> set (headerHints rep) \<longleftrightarrow>
           (\<exists>v. h ''server'' = Some v \<and> sublist ''cloudflare'' (toLowerCase v))) \<and>
        (''cf-ray header present'' \<in> set (headerHints rep) \<longleftrightarrow> h ''cf-ray'' \<noteq> None) \<and>
        (''cf-cache-status header present'' \<in> set (headerHints rep) \<longleftrightarrow>
           h ''cf-cache-status'' \<noteq> None) \<and>
        subseq (headerHints rep)
          [''server: cloudflare'', ''cf-ray header present'', ''cf-cache-status header present''] \<and>
        distinct (headerHints rep))"
proof
  assume "snd (onRequest w req) = Inr r \<and> body r = InferenceBody rep"
  then obtain dname info where
    d: "extract_domain req = Inr dname" and i: "snd (httpInfo w dname) = Inr info" and
    hi: "headerIndications info = Inr (headerHints rep)"
    using onRequest_success [of w req r rep] by auto
  from hi obtain h where h: "headers info = Some h"
    by (cases "headers info") (simp_all add: headerIndications_def)
  obtain hs where c: "h = collect_headers hs"
    using httpInfo_headers [OF i h] by blast
  have ne: "\<And>k v. h k = Some v \<Longrightarrow> v \<noteq> []"
    using collect_headers_Some c by blast
  define A where "A = (\<exists>v. h ''server'' = Some v \<and> v \<noteq> [] \<and> includes_str (toLowerCase v) ''cloudflare'')"
  define B where "B = (\<exists>v. h ''cf-ray'' = Some v \<and> v \<noteq> [])"
  define C where "C = (\<exists>v. h ''cf-cache-status'' = Some v \<and> v \<noteq> [])"
  have A: "A \<longleftrightarrow> (\<exists>v. h ''server'' = Some v \<and> sublist ''cloudflare'' (toLowerCase v))"
    unfolding A_def using ne by (auto simp: includes_str_iff_sublist)
  have B: "B \<longleftrightarrow> h ''cf-ray'' \<noteq> None"
    unfolding B_def using ne by auto
  have C: "C \<longleftrightarrow> h ''cf-cache-status'' \<noteq> None"
    unfolding C_def using ne by auto
  have hh: "headerHints rep =
      (if A then [''server: cloudflare''] else [])
      @ (if B then [''cf-ray header present''] else [])
      @ (if C then [''cf-cache-status header present''] else [])"
    using hi headerIndications_Some [OF h] unfolding A_def B_def C_def by simp
  have m1: "''server: cloudflare'' \<in> set (headerHints rep) \<longleftrightarrow> A"
    unfolding hh by simp
  have m2: "''cf-ray header present'' \<in> set (headerHints rep) \<longleftrightarrow> B"
    unfolding hh by simp
  have m3: "''cf-cache-status header present'' \<in> set (headerHints rep) \<longleftrightarrow> C"
    unfolding hh by simp
  have sq: "subseq (headerHints rep)
          [''server: cloudflare'', ''cf-ray header present'', ''cf-cache-status header present'']"
    unfolding hh by (cases A; cases B; cases C) simp_all
  have di: "distinct (headerHints rep)"
    unfolding hh by simp
  from d i h m1 m2 m3 sq di A B C
  show "\<exists>dname info h.
        extract_domain req = Inr dname \<and> snd (httpInfo w dname) = Inr info \<and>
        headers info = Some h \<and>
        (''server: cloudflare'' \<in> set (headerHints rep) \<longleftrightarrow>
           (\<exists>v. h ''server'' = Some v \<and> sublist ''cloudflare'' (toLowerCase v))) \<and>
        (''cf-ray header present'' \<in> set (headerHints rep) \<longleftrightarrow> h ''cf-ray'' \<noteq> None) \<and>
        (''cf-cache-status header present'' \<in> set (headerHints rep) \<longleftrightarrow>
           h ''cf-cache-status'' \<noteq> None) \<and>
        subseq (headerHints rep)
          [''server: cloudflare'', ''cf-ray header present'', ''cf-cache-status header present''] \<and>
        distinct (headerHints rep)"
    by blast
qed

theorem header_hints_exact_witness:
  "snd (onRequest world_behind (request_for ''Shop.Example'')) = Inr (json_response report_behind)
   \<and> body (json_response report_behind) = InferenceBody report_behind
   \<and> headerHints report_behind = [''server: cloudflare'', ''cf-ray header present'']
   \<and> (\<exists>dname info h.
        extract_domain (request_for ''Shop.Example'') = Inr dname \<and>
        snd (httpInfo world_behind dname) = Inr info \<and>
        headers info = Some h \<and>
        (''server: cloudflare'' \<in> set (headerHints report_behind) \<longleftrightarrow>
           (\<exists>v. h ''server'' = Some v \<and> sublist ''cloudflare'' (toLowerCase v))) \<and>
        (''cf-ray header present'' \<in> set (headerHints report_behind) \<longleftrightarrow> h ''cf-ray'' \<noteq> None) \<and>
        (''cf-cache-status header present'' \<in> set (headerHints report_behind) \<longleftrightarrow>
           h ''cf-cache-status'' \<noteq> None) \<and>
        subseq (headerHints report_behind)
          [''server: cloudflare'', ''cf-ray header present'', ''cf-cache-status header present''] \<and>
        distinct (headerHints report_behind))"
proof -
  have run: "snd (onRequest world_behind (request_for ''Shop.Example'')) = Inr (json_response report_behind)"
    by (simp add: run_behind)
  have hh: "headerHints report_behind = [''server: cloudflare'', ''cf-ray header present'']"
    by (simp add: report_behind_def)
  from run body_json_response [of report_behind] hh header_hints_exact
    [of world_behind "request_for ''Shop.Example''" "json_response report_behind" report_behind]
  show ?thesis by blast
qed

text \<open>
  C10. In every response that carries a report, \<open>ips_in_cloudflare_ranges\<close> consists of
  the elements of \<open>resolved_ips\<close> that are contained in at least one line of the two fetched
  range lists, in the same order; so every address reported in range was reported as
  resolved.
\<close>

theorem ips_in_ranges_sublist:
  "snd (onRequest w req) = Inr r \<and> body r = InferenceBody rep \<longrightarrow>
     (\<exists>cfV4txt cfV6txt.
        text_fetch w ''https://www.cloudflare.com/ips-v4'' = TextBody cfV4txt \<and>
        text_fetch w ''https://www.cloudflare.com/ips-v6'' = TextBody cfV6txt \<and>
        ips_in_cloudflare_ranges rep =
          filter (\<lambda>ip. \<exists>range \<in> set (cfRanges cfV4txt cfV6txt). cidrContains range ip)
            (resolved_ips rep)) \<and>
     subseq (ips_in_cloudflare_ranges rep) (resolved_ips rep) \<and>
     set (ips_in_cloudflare_ranges rep) \<subseteq> set (resolved_ips rep)"
proof
  assume "snd (onRequest w req) = Inr r \<and> body r = InferenceBody rep"
  then obtain cfV4txt cfV6txt where
    v4: "text_fetch w ''https://www.cloudflare.com/ips-v4'' = TextBody cfV4txt" and
    v6: "text_fetch w ''https://www.cloudflare.com/ips-v6'' = TextBody cfV6txt" and
    eq: "ips_in_cloudflare_ranges rep = ipsBehindCF (resolved_ips rep) (cfRanges cfV4txt cfV6txt)"
    using onRequest_success [of w req r rep] by (auto simp: fetch_text_Inr)
  have f: "ips_in_cloudflare_ranges rep =
          filter (\<lambda>ip. \<exists>range \<in> set (cfRanges cfV4txt cfV6txt). cidrContains range ip)
            (resolved_ips rep)"
    unfolding eq ipsBehindCF_def by (simp add: list_ex_iff)
  have "subseq (ips_in_cloudflare_ranges rep) (resolved_ips rep)"
    unfolding f by simp
  moreover have "set (ips_in_cloudflare_ranges rep) \<subseteq> set (resolved_ips rep)"
    unfolding f by auto
  ultimately show "(\<exists>cfV4txt cfV6txt.
        text_fetch w ''https://www.cloudflare.com/ips-v4'' = TextBody cfV4txt \<and>
        text_fetch w ''https://www.cloudflare.com/ips-v6'' = TextBody cfV6txt \<and>
        ips_in_cloudflare_ranges rep =
          filter (\<lambda>ip. \<exists>range \<in> set (cfRanges cfV4txt cfV6txt). cidrContains range ip)
            (resolved_ips rep)) \<and>
     subseq (ips_in_cloudflare_ranges rep) (resolved_ips rep) \<and>
     set (ips_in_cloudflare_ranges rep) \<subseteq> set (resolved_ips rep)"
    using v4 v6 f by blast
qed

theorem ips_in_ranges_sublist_witness:
  "snd (onRequest world_behind (request_for ''Shop.Example'')) = Inr (json_response report_behind)
   \<and> body (json_response report_behind) = InferenceBody report_behind
   \<and> resolved_ips report_behind = [''104.16.1.1'', ''93.184.216.34'']
   \<and> ips_in_cloudflare_ranges report_behind = [''104.16.1.1'']
   \<and> (\<exists>cfV4txt cfV6txt.
        text_fetch world_behind ''https://www.cloudflare.com/ips-v4'' = TextBody cfV4txt \<and>
        text_fetch world_behind ''https://www.cloudflare.com/ips-v6'' = TextBody cfV6txt \<and>
        ips_in_cloudflare_ranges report_behind =
          filter (\<lambda>ip. \<exists>range \<in> set (cfRanges cfV4txt cfV6txt). cidrContains range ip)
            (resolved_ips report_behind))
   \<and> subseq (ips_in_cloudflare_ranges report_behind) (resolved_ips report_behind)
   \<and> set (ips_in_cloudflare_ranges report_behind) \<subseteq> set (resolved_ips report_behind)"
proof -
  have run: "snd (onRequest world_behind (request_for ''Shop.Example'')) = Inr (json_response report_behind)"
    by (simp add: run_behind)
  have r: "resolved_ips report_behind = [''104.16.1.1'', ''93.184.216.34'']"
    and i: "ips_in_cloudflare_ranges report_behind = [''104.16.1.1'']"
    by (simp_all add: report_behind_def)
  from run body_json_response [of report_behind] r i ips_in_ranges_sublist
    [of world_behind "request_for ''Shop.Example''" "json_response report_behind" report_behind]
  show ?thesis by blast
qed

end
